theory Spec2Isabelle
  imports Complex_Main "HOL-Library.Word" "HOL-Library.Sublist" "HOL-Library.Log_Nat"
begin

section \<open>Strings, characters and Python values\<close>

text \<open>
  Python strings are modelled as HOL strings. A character is read as the code point of the
  same number, so the multiplication sign U+00D7 of the patterns is the character 0xD7.
  The classes \<open>is_digit\<close>, \<open>is_space\<close> and \<open>is_word\<close> are Python's \<open>\d\<close>, \<open>\s\<close>
  (and \<open>str.strip\<close>) and \<open>\w\<close> on the code points below U+0100. The case mappings
  \<open>upper\<close> and \<open>lower\<close> are Python's on ASCII text and on the multiplication sign
  (Python maps some other letters to several characters or beyond U+00FF); \<open>ascii_text\<close>
  names the strings on which they are exact.
  Python integers are unbounded and modelled as \<open>int\<close>.
\<close>

datatype exn = ValueError | TypeError | OverflowError | KeyError | AttributeError | SqlError

definition times_sign :: char where
  "times_sign = CHR 0xD7"

definition is_digit :: "char \<Rightarrow> bool" where
  "is_digit c \<longleftrightarrow> c \<in> set ''0123456789''"

definition is_space :: "char \<Rightarrow> bool" where
  "is_space c \<longleftrightarrow>
     c \<in> set [CHR '' '', CHR 0x09, CHR 0x0A, CHR 0x0B, CHR 0x0C, CHR 0x0D,
       CHR 0x1C, CHR 0x1D, CHR 0x1E, CHR 0x1F, CHR 0x85, CHR 0xA0]"

definition is_lower :: "char \<Rightarrow> bool" where
  "is_lower c \<longleftrightarrow> c \<in> set ''abcdefghijklmnopqrstuvwxyz''"

definition is_upper :: "char \<Rightarrow> bool" where
  "is_upper c \<longleftrightarrow> c \<in> set ''ABCDEFGHIJKLMNOPQRSTUVWXYZ''"

text \<open>Beyond ASCII, the letters and numeric characters below U+0100 are word characters:
  the ordinal indicators, the superscript digits, the micro sign, the fractions and the
  accented letters (all of U+00C0 to U+00FF but the multiplication and division signs).\<close>

definition is_latin1_alnum :: "char \<Rightarrow> bool" where
  "is_latin1_alnum c \<longleftrightarrow>
     c \<in> set [CHR 0xAA, CHR 0xB2, CHR 0xB3, CHR 0xB5, CHR 0xB9, CHR 0xBA, CHR 0xBC, CHR 0xBD,
       CHR 0xBE] \<or>
     (0xC0 \<le> (of_char c :: nat) \<and> c \<noteq> CHR 0xD7 \<and> c \<noteq> CHR 0xF7)"

definition is_word :: "char \<Rightarrow> bool" where
  "is_word c \<longleftrightarrow>
     is_digit c \<or> is_lower c \<or> is_upper c \<or> c = CHR ''_'' \<or> is_latin1_alnum c"


definition upper_char :: "char \<Rightarrow> char" where
  "upper_char c =
     (case map_of (zip ''abcdefghijklmnopqrstuvwxyz'' ''ABCDEFGHIJKLMNOPQRSTUVWXYZ'') c of
        None \<Rightarrow> c | Some u \<Rightarrow> u)"

definition lower_char :: "char \<Rightarrow> char" where
  "lower_char c =
     (case map_of (zip ''ABCDEFGHIJKLMNOPQRSTUVWXYZ'' ''abcdefghijklmnopqrstuvwxyz'') c of
        None \<Rightarrow> c | Some l \<Rightarrow> l)"

definition upper :: "string \<Rightarrow> string" where
  "upper s = map upper_char s"

definition lower :: "string \<Rightarrow> string" where
  "lower s = map lower_char s"

definition strip :: "string \<Rightarrow> string" where
  "strip s = rev (dropWhile is_space (rev (dropWhile is_space s)))"

text \<open>\<open>k in s\<close> on Python strings: \<open>k\<close> occurs in \<open>s\<close> as a contiguous block.\<close>

fun str_contains :: "string \<Rightarrow> string \<Rightarrow> bool" where
  "str_contains k [] = (k = [])"
| "str_contains k (c # cs) = (take (length k) (c # cs) = k \<or> str_contains k cs)"

text \<open>
  \<open>int(s)\<close> on a string of decimal digits. The extractors only ever pass a group captured
  by \<open>\d+\<close>; any other string is reported as \<open>ValueError\<close>. The interpreter refuses
  to convert more than 4300 digits (its default \<open>int_max_str_digits\<close>) with a
  \<open>ValueError\<close>.
\<close>

definition int_max_str_digits :: nat where
  "int_max_str_digits = 4300"

definition digit_val :: "char \<Rightarrow> int" where
  "digit_val c = int (of_char c) - 48"

definition py_int :: "string \<Rightarrow> exn + int" where
  "py_int s = (if s \<noteq> [] \<and> list_all is_digit s \<and> length s \<le> int_max_str_digits
     then Inr (foldl (\<lambda>n c. 10 * n + digit_val c) 0 s) else Inl ValueError)"

section \<open>Regular expressions with Python's backtracking order\<close>

text \<open>
  The patterns of the source use literals, character classes, greedy repetition of a
  class, optional parts, alternation, capturing groups, a positive look-ahead, \<open>\b\<close> and
  \<open>$\<close>. \<open>rmatch r s\<close> lists every way \<open>r\<close> can match at the position \<open>s\<close>, in the
  order in which Python's backtracking matcher tries them (greedy repetition longest
  first, alternatives left to right), so the head of the list is the match Python reports.
\<close>

datatype regex =
    Eps
  | Lit char
  | LitI char
  | Cls "char \<Rightarrow> bool"
  | StarC "char \<Rightarrow> bool"
  | PlusC "char \<Rightarrow> bool"
  | Seq regex regex
  | Alt regex regex
  | Opt regex
  | Grp nat regex
  | Look regex
  | WordB
  | Eos

record mstate =
  prev :: "char option"
  rest :: string
  groups :: "nat \<Rightarrow> string option"

fun star_cls :: "(char \<Rightarrow> bool) \<Rightarrow> char option \<Rightarrow> string \<Rightarrow> (char option \<times> string) list" where
  "star_cls p pv [] = [(pv, [])]"
| "star_cls p pv (c # cs) =
     (if p c then star_cls p (Some c) cs @ [(pv, c # cs)] else [(pv, c # cs)])"

definition word_at :: "char option \<Rightarrow> bool" where
  "word_at co = (case co of None \<Rightarrow> False | Some c \<Rightarrow> is_word c)"

definition next_char :: "string \<Rightarrow> char option" where
  "next_char s = (case s of [] \<Rightarrow> None | c # _ \<Rightarrow> Some c)"

definition step_char :: "(char \<Rightarrow> bool) \<Rightarrow> mstate \<Rightarrow> mstate list" where
  "step_char p s = (case rest s of [] \<Rightarrow> []
     | c # cs \<Rightarrow> if p c then [s\<lparr>prev := Some c, rest := cs\<rparr>] else [])"

definition set_group :: "nat \<Rightarrow> mstate \<Rightarrow> mstate \<Rightarrow> mstate" where
  "set_group n s s' =
     s'\<lparr>groups := (groups s')(n \<mapsto> take (length (rest s) - length (rest s')) (rest s))\<rparr>"

primrec rmatch :: "regex \<Rightarrow> mstate \<Rightarrow> mstate list" where
  "rmatch Eps = (\<lambda>s. [s])"
| "rmatch (Lit c) = (\<lambda>s. step_char (\<lambda>d. d = c) s)"
| "rmatch (LitI c) = (\<lambda>s. step_char (\<lambda>d. upper_char d = upper_char c) s)"
| "rmatch (Cls p) = (\<lambda>s. step_char p s)"
| "rmatch (StarC p) =
     (\<lambda>s. map (\<lambda>(pv, r). s\<lparr>prev := pv, rest := r\<rparr>) (star_cls p (prev s) (rest s)))"
| "rmatch (PlusC p) =
     (\<lambda>s. concat (map (\<lambda>s'. map (\<lambda>(pv, r). s'\<lparr>prev := pv, rest := r\<rparr>)
              (star_cls p (prev s') (rest s'))) (step_char p s)))"
| "rmatch (Seq a b) = (\<lambda>s. concat (map (rmatch b) (rmatch a s)))"
| "rmatch (Alt a b) = (\<lambda>s. rmatch a s @ rmatch b s)"
| "rmatch (Opt a) = (\<lambda>s. rmatch a s @ [s])"
| "rmatch (Grp n a) = (\<lambda>s. map (set_group n s) (rmatch a s))"
| "rmatch (Look a) = (\<lambda>s. if rmatch a s = [] then [] else [s])"
| "rmatch WordB = (\<lambda>s. if word_at (prev s) \<noteq> word_at (next_char (rest s)) then [s] else [])"
| "rmatch Eos = (\<lambda>s. if rest s = [] \<or> rest s = [CHR 0x0A] then [s] else [])"

definition str_re :: "string \<Rightarrow> regex" where
  "str_re w = foldr (\<lambda>c r. Seq (Lit c) r) w Eps"

definition stri_re :: "string \<Rightarrow> regex" where
  "stri_re w = foldr (\<lambda>c r. Seq (LitI c) r) w Eps"

definition seqs :: "regex list \<Rightarrow> regex" where
  "seqs rs = foldr Seq rs Eps"

fun alts :: "regex list \<Rightarrow> regex" where
  "alts [] = Eps"
| "alts [r] = r"
| "alts (r # rs) = Alt r (alts rs)"

definition start_state :: "char option \<Rightarrow> string \<Rightarrow> mstate" where
  "start_state pv s = \<lparr>prev = pv, rest = s, groups = Map.empty\<rparr>"

text \<open>\<open>re.search\<close>: the first match at the leftmost position that has one.\<close>

fun search_from :: "regex \<Rightarrow> char option \<Rightarrow> string \<Rightarrow> mstate option" where
  "search_from r pv [] =
     (case rmatch r (start_state pv []) of [] \<Rightarrow> None | m # _ \<Rightarrow> Some m)"
| "search_from r pv (c # cs) =
     (case rmatch r (start_state pv (c # cs)) of
        [] \<Rightarrow> search_from r (Some c) cs
      | m # _ \<Rightarrow> Some m)"

definition re_search :: "regex \<Rightarrow> string \<Rightarrow> mstate option" where
  "re_search r text = search_from r None text"

definition match_group :: "mstate \<Rightarrow> nat \<Rightarrow> string" where
  "match_group m n = (case groups m n of None \<Rightarrow> [] | Some g \<Rightarrow> g)"

text \<open>
  \<open>re.findall\<close> for a pattern with one group: group 1 of every match, scanning left to
  right and resuming where the previous match ended. \<open>skip\<close> counts the characters of the
  last match that are still to be passed over. (A pattern that can match the empty string
  is not in the source, and Python's rule for it is not modelled.)
\<close>

fun findall_from :: "regex \<Rightarrow> nat \<Rightarrow> char option \<Rightarrow> string \<Rightarrow> string list" where
  "findall_from r skip pv [] =
     (if skip = 0 then
        (case rmatch r (start_state pv []) of [] \<Rightarrow> [] | m # _ \<Rightarrow> [match_group m 1])
      else [])"
| "findall_from r skip pv (c # cs) =
     (if skip = 0 then
        (case rmatch r (start_state pv (c # cs)) of
           [] \<Rightarrow> findall_from r 0 (Some c) cs
         | m # _ \<Rightarrow> match_group m 1 #
             findall_from r (length (c # cs) - length (rest m) - 1) (Some c) cs)
      else findall_from r (skip - 1) (Some c) cs)"

definition re_findall :: "regex \<Rightarrow> string \<Rightarrow> string list" where
  "re_findall r text = findall_from r 0 None text"

section \<open>Double-precision floating point\<close>

text \<open>
  A Python \<open>float\<close> is an IEEE 754 double. A finite double is modelled by its exact
  rational value; \<open>round_to_double\<close> is rounding to the nearest double with ties to the
  even significand (53 bits, exponents down to the subnormal quantum \<open>2^-1074\<close>, overflow
  to infinity from \<open>2^1024\<close>). Signed zeros are not distinguished.
\<close>

datatype float64 = Fin rat | PInf | NInf | NaN

definition pow2 :: "int \<Rightarrow> rat" where
  "pow2 e = (if 0 \<le> e then 2 ^ nat e else 1 / 2 ^ nat (- e))"

definition ilog2 :: "rat \<Rightarrow> int" where
  "ilog2 x =
     (let d = bitlen (fst (quotient_of x)) - bitlen (snd (quotient_of x))
      in if pow2 d \<le> x then d else d - 1)"

definition round_half_even :: "rat \<Rightarrow> int" where
  "round_half_even x =
     (let f = \<lfloor>x\<rfloor>; d = x - of_int f
      in if d < 1 / 2 then f else if 1 / 2 < d then f + 1 else if even f then f else f + 1)"

definition round_to_double :: "rat \<Rightarrow> float64" where
  "round_to_double x =
     (if x = 0 then Fin 0
      else
        let q = max (ilog2 \<bar>x\<bar>) (- 1022) - 52;
            v = of_int (round_half_even (x / pow2 q)) * pow2 q
        in if pow2 1024 \<le> v then PInf else if v \<le> - pow2 1024 then NInf else Fin v)"

fun fsign :: "float64 \<Rightarrow> int" where
  "fsign (Fin x) = (if x < 0 then - 1 else if x = 0 then 0 else 1)"
| "fsign PInf = 1"
| "fsign NInf = - 1"
| "fsign NaN = 0"

fun fmul :: "float64 \<Rightarrow> float64 \<Rightarrow> float64" where
  "fmul (Fin x) (Fin y) = round_to_double (x * y)"
| "fmul NaN b = NaN"
| "fmul a NaN = NaN"
| "fmul a b =
     (if fsign a * fsign b = 0 then NaN else if 0 < fsign a * fsign b then PInf else NInf)"

text \<open>\<open>float(s)\<close> on a literal \<open>digits\<close> or \<open>digits.digits\<close>, the only form the weight
  pattern captures; any other string is reported as \<open>ValueError\<close>.\<close>

definition digits_val :: "string \<Rightarrow> int" where
  "digits_val s = foldl (\<lambda>n c. 10 * n + digit_val c) 0 s"

definition py_float :: "string \<Rightarrow> exn + float64" where
  "py_float s =
     (let ip = takeWhile (\<lambda>c. c \<noteq> CHR ''.'') s; fp = drop (length ip + 1) s
      in if ip \<noteq> [] \<and> list_all is_digit ip \<and>
            (s = ip \<or> (fp \<noteq> [] \<and> list_all is_digit fp \<and> s = ip @ ''.'' @ fp))
         then Inr (round_to_double (of_int (digits_val (ip @ fp)) / 10 ^ length fp))
         else Inl ValueError)"

text \<open>\<open>round(x)\<close> of a float: the nearest integer, a tie going to the even one;
  \<open>int(x)\<close> of a float: truncation. Both raise on an infinity or a NaN.\<close>

fun py_round :: "float64 \<Rightarrow> exn + int" where
  "py_round (Fin x) = Inr (round_half_even x)"
| "py_round NaN = Inl ValueError"
| "py_round _ = Inl OverflowError"

fun int_of_float :: "float64 \<Rightarrow> exn + int" where
  "int_of_float (Fin x) = Inr (if 0 \<le> x then \<lfloor>x\<rfloor> else \<lceil>x\<rceil>)"
| "int_of_float NaN = Inl ValueError"
| "int_of_float _ = Inl OverflowError"

text \<open>\<open>round(x, 3)\<close> of a float: the exact value is rounded to three decimals (ties to
  even) and the decimal result is read back as a double.\<close>

fun py_round3 :: "float64 \<Rightarrow> float64" where
  "py_round3 (Fin x) = round_to_double (of_int (round_half_even (x * 1000)) / 1000)"
| "py_round3 f = f"

section \<open>\<open>numpy.prod\<close> on a list of Python integers\<close>

text \<open>
  \<open>np.prod(nums)\<close> first turns the list into an array. With the platform integer of 64
  bits, non-negative integers below \<open>2^63\<close> give an \<open>int64\<close> array, integers from
  \<open>2^63\<close> below \<open>2^64\<close> an \<open>uint64\<close> array, a mix of the two a \<open>float64\<close> array, and
  anything larger an array of Python objects. The product is then taken in the array's
  element type: with wrap-around for the two integer types, in floating point from left
  to right for \<open>float64\<close>, exactly for objects. \<open>int(...)\<close> converts the result back.
  (The extractor only passes non-negative integers.)
\<close>

datatype np_scalar = NpInt int | NpFloat float64

definition np_prod :: "int list \<Rightarrow> np_scalar" where
  "np_prod ns =
     (if list_all (\<lambda>n. n < 2 ^ 63) ns
        then NpInt (sint (prod_list (map word_of_int ns) :: 64 word))
      else if list_all (\<lambda>n. 2 ^ 63 \<le> n \<and> n < 2 ^ 64) ns
        then NpInt (uint (prod_list (map word_of_int ns) :: 64 word))
      else if list_all (\<lambda>n. n < 2 ^ 64) ns
        then NpFloat (foldl fmul (Fin 1) (map (\<lambda>n. round_to_double (of_int n)) ns))
      else NpInt (prod_list ns))"

fun int_of_np :: "np_scalar \<Rightarrow> exn + int" where
  "int_of_np (NpInt n) = Inr n"
| "int_of_np (NpFloat f) = int_of_float f"

section \<open>Units per carton\<close>

definition one_of :: "string \<Rightarrow> regex" where
  "one_of cs = Cls (\<lambda>c. c \<in> set cs)"

definition mult_class :: regex where
  "mult_class = one_of [CHR ''*'', times_sign, CHR ''X'']"

definition x_class :: regex where
  "x_class = one_of [CHR ''X'', times_sign]"

definition digit_dot :: "char \<Rightarrow> bool" where
  "digit_dot c \<longleftrightarrow> is_digit c \<or> c = CHR ''.''"

text \<open>\<^verbatim>\<open>(\d+)\s*(PCS|PC|PS)\b\<close>\<close>

definition pcs_re :: regex where
  "pcs_re = seqs [Grp 1 (PlusC is_digit), StarC is_space,
     Grp 2 (alts [str_re ''PCS'', str_re ''PC'', str_re ''PS'']), WordB]"

text \<open>\<^verbatim>\<open>\(\s*[\d\.]+\s*(?:ML|L|G|KG)?\s*[*xX]\s*(\d+)\s*\)\<close> (with the multiplication sign
  for \<open>x\<close>)\<close>

definition bracket_re :: regex where
  "bracket_re = seqs [Lit CHR ''('', StarC is_space, PlusC digit_dot, StarC is_space,
     Opt (alts [str_re ''ML'', str_re ''L'', str_re ''G'', str_re ''KG'']),
     StarC is_space, mult_class, StarC is_space, Grp 1 (PlusC is_digit), StarC is_space,
     Lit CHR '')'']"

text \<open>\<^verbatim>\<open>(\d+)\s*[*xX]\s*[\d\.]+\s*(?:ML|L|LTR|G|KG|MIL|OZ)\<close>\<close>

definition before_unit_re :: regex where
  "before_unit_re = seqs [Grp 1 (PlusC is_digit), StarC is_space, mult_class,
     StarC is_space, PlusC digit_dot, StarC is_space,
     alts [str_re ''ML'', str_re ''L'', str_re ''LTR'', str_re ''G'', str_re ''KG'',
       str_re ''MIL'', str_re ''OZ'']]"

text \<open>\<^verbatim>\<open>(\d+)\s*[Xx]\s*(?=\d+)\<close>\<close>

definition x_numbers_re :: regex where
  "x_numbers_re = seqs [Grp 1 (PlusC is_digit), StarC is_space, x_class, StarC is_space,
     Look (PlusC is_digit)]"

text \<open>\<^verbatim>\<open>\b(\d+)\s*[Xx]\s*\d*\s*(?:KG|G|GM|L|ML)\b\<close>\<close>

definition single_x_re :: regex where
  "single_x_re = seqs [WordB, Grp 1 (PlusC is_digit), StarC is_space, x_class,
     StarC is_space, StarC is_digit, StarC is_space,
     alts [str_re ''KG'', str_re ''G'', str_re ''GM'', str_re ''L'', str_re ''ML''], WordB]"

text \<open>\<^verbatim>\<open>\b(\d+)\s*(BAG|BAGS|TEABAG|TEABAGS|TEA BAGS|STICKS)\b\<close>\<close>

definition bag_re :: regex where
  "bag_re = seqs [WordB, Grp 1 (PlusC is_digit), StarC is_space,
     Grp 2 (alts [str_re ''BAG'', str_re ''BAGS'', str_re ''TEABAG'', str_re ''TEABAGS'',
       str_re ''TEA BAGS'', str_re ''STICKS'']), WordB]"

text \<open>\<^verbatim>\<open>(\d+)\s*\+\s*(\d+)\<close>\<close>

definition plus_re :: regex where
  "plus_re = seqs [Grp 1 (PlusC is_digit), StarC is_space, Lit CHR ''+'', StarC is_space,
     Grp 2 (PlusC is_digit)]"

text \<open>\<^verbatim>\<open>[*xX]\s*(\d+)\<close>\<close>

definition star_after_re :: regex where
  "star_after_re = seqs [mult_class, StarC is_space, Grp 1 (PlusC is_digit)]"

definition int_group :: "mstate \<Rightarrow> nat \<Rightarrow> exn + int" where
  "int_group m n = (case groups m n of None \<Rightarrow> Inl TypeError | Some g \<Rightarrow> py_int g)"

definition ret_int :: "exn + int \<Rightarrow> exn + int option" where
  "ret_int r = (case r of Inl e \<Rightarrow> Inl e | Inr n \<Rightarrow> Inr (Some n))"

fun map_int :: "string list \<Rightarrow> exn + int list" where
  "map_int [] = Inr []"
| "map_int (s # ss) =
     (case py_int s of Inl e \<Rightarrow> Inl e
      | Inr n \<Rightarrow> (case map_int ss of Inl e \<Rightarrow> Inl e | Inr ns \<Rightarrow> Inr (n # ns)))"

text \<open>Cases 4 and 5 of the source: the numbers in front of a chain of \<open>X\<close>.\<close>

definition chain_case :: "string list \<Rightarrow> exn + int option" where
  "chain_case x_numbers =
     (if 2 \<le> length x_numbers then
        (case map_int x_numbers of Inl e \<Rightarrow> Inl e
         | Inr nums \<Rightarrow> ret_int (int_of_np (np_prod nums)))
      else ret_int (py_int (hd x_numbers)))"

definition plus_case :: "mstate \<Rightarrow> exn + int option" where
  "plus_case m =
     (case int_group m 1 of Inl e \<Rightarrow> Inl e
      | Inr a \<Rightarrow> (case int_group m 2 of Inl e \<Rightarrow> Inl e | Inr b \<Rightarrow> Inr (Some (a + b))))"

text \<open>The argument is \<open>None\<close> for a missing value (\<open>pd.isna\<close>), else the product name.\<close>

definition extract_units_per_carton :: "string option \<Rightarrow> exn + int option" where
  "extract_units_per_carton name0 =
     (case name0 of None \<Rightarrow> Inr None
      | Some raw \<Rightarrow>
          let name = strip (upper raw) in
          case re_search pcs_re name of Some m \<Rightarrow> ret_int (int_group m 1) | None \<Rightarrow>
          case re_search bracket_re name of Some m \<Rightarrow> ret_int (int_group m 1) | None \<Rightarrow>
          case re_search before_unit_re name of Some m \<Rightarrow> ret_int (int_group m 1) | None \<Rightarrow>
          if re_findall x_numbers_re name \<noteq> [] then chain_case (re_findall x_numbers_re name)
          else
          case re_search single_x_re name of Some m \<Rightarrow> ret_int (int_group m 1) | None \<Rightarrow>
          case re_search bag_re name of Some m \<Rightarrow> ret_int (int_group m 1) | None \<Rightarrow>
          case re_search plus_re name of Some m \<Rightarrow> plus_case m | None \<Rightarrow>
          case re_search star_after_re name of Some m \<Rightarrow> ret_int (int_group m 1) | None \<Rightarrow>
          Inr None)"

section \<open>Decimal rendering of integers\<close>

definition digit_char :: "nat \<Rightarrow> char" where
  "digit_char d = char_of (48 + d)"

fun str_nat :: "nat \<Rightarrow> string" where
  "str_nat n = (if n < 10 then [digit_char n] else str_nat (n div 10) @ [digit_char (n mod 10)])"

declare str_nat.simps [simp del]

definition str_int :: "int \<Rightarrow> string" where
  "str_int i = (if i < 0 then CHR ''-'' # str_nat (nat (- i)) else str_nat (nat i))"

section \<open>Weight and quantity\<close>

text \<open>\<^verbatim>\<open>(\d+(?:\.\d+)?)\s*(KG|KGS|G|GM|GR|GRAM|GRAMS|L|LTR|LITRE|ML|M L|LT)(?=[\s\*xX0-9\W]|$)\<close>
  compiled with \<open>re.IGNORECASE\<close> (and the multiplication sign for \<open>x\<close>).\<close>

definition after_unit :: "char \<Rightarrow> bool" where
  "after_unit c \<longleftrightarrow> is_space c \<or> c = CHR ''*'' \<or> c = times_sign \<or> upper_char c = CHR ''X''
     \<or> is_digit c \<or> \<not> is_word c"

definition weight_units :: "string list" where
  "weight_units = [''KG'', ''KGS'', ''G'', ''GM'', ''GR'', ''GRAM'', ''GRAMS'', ''L'', ''LTR'',
     ''LITRE'', ''ML'', ''M L'', ''LT'']"

definition weight_re :: regex where
  "weight_re = seqs [Grp 1 (Seq (PlusC is_digit) (Opt (Seq (Lit CHR ''.'') (PlusC is_digit)))),
     StarC is_space, Grp 2 (alts (map stri_re weight_units)),
     Look (Alt (Cls after_unit) Eos)]"

text \<open>The second half of \<open>extract_weight_quantity\<close>: the captured number and unit are
  converted to grams and rendered. A failing \<open>float\<close> is caught and gives \<open>None\<close>; the
  rounding is outside the \<open>try\<close>.\<close>

definition normalize_weight :: "string \<Rightarrow> string \<Rightarrow> exn + string option" where
  "normalize_weight num unit0 =
     (case py_float num of Inl e \<Rightarrow> Inr None
      | Inr v \<Rightarrow>
          let unit = upper unit0;
              grams =
                (if unit \<in> set [''KG'', ''KGS''] then fmul v (Fin 1000)
                 else if unit \<in> set [''G'', ''GM'', ''GR'', ''GRAM'', ''GRAMS''] then v
                 else if unit \<in> set [''L'', ''LTR'', ''LITRE''] then fmul v (Fin 1000)
                 else if unit \<in> set [''ML'', ''M L''] then fmul v (Fin 1)
                 else v)
          in (case py_round grams of Inl e \<Rightarrow> Inl e | Inr n \<Rightarrow> Inr (Some (str_int n @ ''G''))))"

definition extract_weight_quantity :: "string option \<Rightarrow> exn + string option" where
  "extract_weight_quantity name0 =
     (case name0 of None \<Rightarrow> Inr None
      | Some raw \<Rightarrow>
          (case re_search weight_re (strip (upper raw)) of
             None \<Rightarrow> Inr None
           | Some m \<Rightarrow> normalize_weight (match_group m 1) (match_group m 2)))"

section \<open>Packaging type\<close>

definition carton_keywords :: "string list" where
  "carton_keywords = [''CTN'', ''CARTON'', ''CARTONS'']"

definition detect_packaging_type :: "string option \<Rightarrow> string" where
  "detect_packaging_type name0 =
     (case name0 of None \<Rightarrow> ''NON-CTN''
      | Some raw \<Rightarrow>
          if list_ex (\<lambda>k. str_contains k (upper (strip raw))) carton_keywords
          then ''CTN'' else ''NON-CTN'')"

section \<open>Consolidation of the supplier batches\<close>

text \<open>A row of a cleaned supplier table. A missing cell (\<open>NaN\<close>) is \<open>None\<close>; pandas
  treats two missing cells as equal when it looks for duplicates, as \<open>None = None\<close> does.\<close>

record row =
  product_name :: "string option"
  serial_number :: "string option"
  supplier :: string
  weight_quantity :: "string option"
  packaging_type :: string
  units_per_carton :: "int option"

record catalog_entry =
  product_id :: string
  entry_row :: row

definition row_key :: "row \<Rightarrow> string option \<times> string" where
  "row_key r = (product_name r, supplier r)"

text \<open>\<open>drop_duplicates(subset=['Product_Name', 'Supplier'])\<close> with the default
  \<open>keep='first'\<close>: a row is dropped when an earlier row has its key.\<close>

fun drop_duplicates :: "(string option \<times> string) list \<Rightarrow> row list \<Rightarrow> row list" where
  "drop_duplicates seen [] = []"
| "drop_duplicates seen (r # rs) =
     (if row_key r \<in> set seen then drop_duplicates seen rs
      else r # drop_duplicates (row_key r # seen) rs)"

text \<open>\<open>[f"product_{i+1}" for i in range(len(final_df))]\<close>, attached row by row.\<close>

definition assign_ids :: "row list \<Rightarrow> catalog_entry list" where
  "assign_ids rs =
     map (\<lambda>i. \<lparr>product_id = ''product_'' @ str_int (int i + 1), entry_row = rs ! i\<rparr>)
       [0..<length rs]"

text \<open>\<open>pd.concat\<close> raises \<open>ValueError\<close> on an empty list of tables.\<close>

definition consolidate :: "row list list \<Rightarrow> exn + catalog_entry list" where
  "consolidate all_data =
     (if all_data = [] then Inl ValueError
      else Inr (assign_ids (drop_duplicates [] (concat all_data))))"

section \<open>Matching by similarity\<close>

text \<open>
  A record of the input JSON is a dictionary from keys to JSON values.
  \<open>compute_similarity\<close> only calls the scikit-learn vectoriser and its cosine; it is a
  parameter \<open>sim\<close> of the model: given the two lower-cased titles it raises or returns a
  finite double, modelled by its exact value.
\<close>

datatype json =
    JNull
  | JBool bool
  | JInt int
  | JFloat float64
  | JStr string
  | JArr "json list"
  | JObj "(string \<times> json) list"

type_synonym jrecord = "string \<rightharpoonup> json"

type_synonym scorer = "string \<Rightarrow> string \<Rightarrow> exn + rat"

fun truthy :: "json \<Rightarrow> bool" where
  "truthy JNull = False"
| "truthy (JBool b) = b"
| "truthy (JInt n) = (n \<noteq> 0)"
| "truthy (JFloat f) = (f \<noteq> Fin 0)"
| "truthy (JStr s) = (s \<noteq> [])"
| "truthy (JArr xs) = (xs \<noteq> [])"
| "truthy (JObj kvs) = (kvs \<noteq> [])"

text \<open>\<open>v.lower()\<close> and \<open>v.strip()\<close> exist on strings only.\<close>

fun json_lower :: "json \<Rightarrow> exn + string" where
  "json_lower (JStr s) = Inr (lower s)"
| "json_lower _ = Inl AttributeError"

fun json_strip :: "json \<Rightarrow> exn + string" where
  "json_strip (JStr s) = Inr (strip s)"
| "json_strip _ = Inl AttributeError"

text \<open>The float literal \<open>0.6\<close>, and \<open>round(x, 3)\<close> of a finite double.\<close>

definition threshold :: rat where
  "threshold = 5404319552844595 / 9007199254740992"

definition round3 :: "rat \<Rightarrow> float64" where
  "round3 x = py_round3 (Fin x)"

definition title_key :: "nat \<Rightarrow> string" where
  "title_key i = ''url_'' @ str_nat i @ ''_title''"

definition url_key :: "nat \<Rightarrow> string" where
  "url_key i = ''url_'' @ str_nat i"

definition similarity_key :: "nat \<Rightarrow> string" where
  "similarity_key i = ''url_'' @ str_nat i @ ''_similarity''"

text \<open>\<open>best_similarity\<close> starts as the integer \<open>0\<close> and becomes a float with the first
  slot that beats it; comparisons go by value, and \<open>round(x, 3)\<close> of an integer is that
  integer.\<close>

datatype number = IntNum int | FloatNum rat

fun num_val :: "number \<Rightarrow> rat" where
  "num_val (IntNum n) = of_int n"
| "num_val (FloatNum x) = x"

fun round3_number :: "number \<Rightarrow> json" where
  "round3_number (IntNum n) = JInt n"
| "round3_number (FloatNum x) = JFloat (round3 x)"

record loop_state =
  similarities :: jrecord
  best_similarity :: number
  best_url :: "json option"

definition init_state :: loop_state where
  "init_state = \<lparr>similarities = Map.empty, best_similarity = IntNum 0, best_url = None\<rparr>"

text \<open>One pass of the loop body for slot \<open>i\<close>.\<close>

definition slot_step :: "scorer \<Rightarrow> jrecord \<Rightarrow> string \<Rightarrow> loop_state \<Rightarrow> nat \<Rightarrow> exn + loop_state" where
  "slot_step sim record input_title st i =
     (case record (title_key i) of
        None \<Rightarrow> Inr st
      | Some t \<Rightarrow>
          if \<not> truthy t then Inr st
          else
            (case json_lower t of
               Inl e \<Rightarrow> Inl e
             | Inr title \<Rightarrow>
                 (case sim (lower input_title) title of
                    Inl e \<Rightarrow> Inl e
                  | Inr similarity \<Rightarrow>
                      let st1 = st\<lparr>similarities :=
                                 (similarities st)(similarity_key i \<mapsto> JFloat (round3 similarity))\<rparr>
                      in if num_val (best_similarity st) < similarity then
                           (case record (url_key i) of
                              None \<Rightarrow> Inl KeyError
                            | Some u \<Rightarrow>
                                Inr (st1\<lparr>best_similarity := FloatNum similarity,
                                       best_url := Some u\<rparr>))
                         else Inr st1)))"

fun run_slots :: "scorer \<Rightarrow> jrecord \<Rightarrow> string \<Rightarrow> nat list \<Rightarrow> loop_state \<Rightarrow> exn + loop_state" where
  "run_slots sim record input_title [] st = Inr st"
| "run_slots sim record input_title (i # is) st =
     (case slot_step sim record input_title st i of
        Inl e \<Rightarrow> Inl e
      | Inr st' \<Rightarrow> run_slots sim record input_title is st')"

definition get_input_title :: "jrecord \<Rightarrow> exn + string" where
  "get_input_title record =
     (case record ''input_title'' of None \<Rightarrow> Inr [] | Some v \<Rightarrow> json_strip v)"

text \<open>The row written to the table \<open>url_similarity_results\<close>.\<close>

record db_row =
  row_id :: "json option"
  row_serial :: "json option"
  row_title :: string
  row_url :: "json option"
  row_status :: string

definition decide :: "loop_state \<Rightarrow> string \<times> json option" where
  "decide st =
     (if threshold \<le> num_val (best_similarity st) then (''Available'', best_url st)
      else (''Not Available'', Some (JStr ''Not available everywhere'')))"

definition json_of :: "json option \<Rightarrow> json" where
  "json_of v = (case v of None \<Rightarrow> JNull | Some j \<Rightarrow> j)"

text \<open>Binding a parameter of the \<open>INSERT\<close>: sqlite3 takes \<open>None\<close>, numbers and strings;
  an integer must fit in 64 bits, a list or a dictionary is refused.\<close>

fun bind_param :: "json option \<Rightarrow> exn + unit" where
  "bind_param (Some (JArr xs)) = Inl SqlError"
| "bind_param (Some (JObj kvs)) = Inl SqlError"
| "bind_param (Some (JInt n)) = (if - (2 ^ 63) \<le> n \<and> n < 2 ^ 63 then Inr () else Inl OverflowError)"
| "bind_param _ = Inr ()"

fun bind_params :: "json option list \<Rightarrow> exn + unit" where
  "bind_params [] = Inr ()"
| "bind_params (v # vs) = (case bind_param v of Inl e \<Rightarrow> Inl e | Inr _ \<Rightarrow> bind_params vs)"

definition process_record :: "scorer \<Rightarrow> jrecord \<Rightarrow> exn + jrecord \<times> db_row" where
  "process_record sim record =
     (case get_input_title record of
        Inl e \<Rightarrow> Inl e
      | Inr input_title \<Rightarrow>
          (case run_slots sim record input_title [1, 2, 3, 4, 5] init_state of
             Inl e \<Rightarrow> Inl e
           | Inr st \<Rightarrow>
               let (status, matched_url) = decide st;
                   out = (record ++ similarities st)
                     (''best_similarity'' \<mapsto> round3_number (best_similarity st),
                      ''matched_url'' \<mapsto> json_of matched_url,
                      ''status'' \<mapsto> JStr status)
               in (case bind_params [record ''id'', record ''serial_number'', matched_url] of
                     Inl e \<Rightarrow> Inl e
                   | Inr _ \<Rightarrow>
                       Inr (out, \<lparr>row_id = record ''id'', row_serial = record ''serial_number'',
                                 row_title = input_title, row_url = matched_url,
                                 row_status = status\<rparr>))))"

text \<open>The loop over the records stands inside one \<open>try\<close>: the first exception ends it,
  and neither the commit nor the output file is reached.\<close>

fun process_all :: "scorer \<Rightarrow> jrecord list \<Rightarrow> exn + (jrecord \<times> db_row) list" where
  "process_all sim [] = Inr []"
| "process_all sim (record # records) =
     (case process_record sim record of
        Inl e \<Rightarrow> Inl e
      | Inr r \<Rightarrow> (case process_all sim records of Inl e \<Rightarrow> Inl e | Inr rs \<Rightarrow> Inr (r # rs)))"

datatype run_result = Aborted exn | Completed "jrecord list" "db_row list"

definition main :: "scorer \<Rightarrow> jrecord list \<Rightarrow> run_result" where
  "main sim data =
     (case process_all sim data of
        Inl e \<Rightarrow> Aborted e
      | Inr rs \<Rightarrow> Completed (map fst rs) (map snd rs))"

section \<open>Notions used in the statements and proofs\<close>









text \<open>Example batches for the consolidation.\<close>

definition example_row :: "string \<Rightarrow> string \<Rightarrow> string \<Rightarrow> row" where
  "example_row n sn sp = \<lparr>product_name = Some n, serial_number = Some sn, supplier = sp,
     weight_quantity = None, packaging_type = ''NON-CTN'', units_per_carton = None\<rparr>"

definition example_batches :: "row list list" where
  "example_batches =
     [[example_row ''TEA 100 BAGS'' ''1'' ''Future'', example_row ''RICE 5KG'' ''2'' ''Future''],
      [example_row ''TEA 100 BAGS'' ''7'' ''Future'', example_row ''RICE 5KG'' ''8'' ''Chettiot'']]"

text \<open>
  The similarity of slot \<open>i\<close> when the slot is scored (its title is a non-empty string and
  the scorer returns), and the slots the loop passes over (title absent or falsy).
  \<open>float_ge f q\<close> is \<open>f >= q\<close> on a float.
\<close>

definition slot_similarity :: "scorer \<Rightarrow> jrecord \<Rightarrow> string \<Rightarrow> nat \<Rightarrow> rat option" where
  "slot_similarity sim record input_title i =
     (case record (title_key i) of
        Some (JStr s) \<Rightarrow>
          (if s = [] then None
           else (case sim (lower input_title) (lower s) of Inl e \<Rightarrow> None | Inr x \<Rightarrow> Some x))
      | _ \<Rightarrow> None)"

definition slot_skipped :: "jrecord \<Rightarrow> nat \<Rightarrow> bool" where
  "slot_skipped record i \<longleftrightarrow>
     (case record (title_key i) of None \<Rightarrow> True | Some t \<Rightarrow> \<not> truthy t)"


definition float_ge :: "float64 \<Rightarrow> rat \<Rightarrow> bool" where
  "float_ge f q = (case f of Fin x \<Rightarrow> q \<le> x | PInf \<Rightarrow> True | _ \<Rightarrow> False)"

text \<open>Example records: all five slots filled with the scraper's \<open>Not Available\<close>, one
  candidate whose title holds the ten tokens of the input title and nine others, two
  candidates with the same title, and a null title.\<close>

definition sentinel_record :: "string \<Rightarrow> jrecord" where
  "sentinel_record title =
     [''id'' \<mapsto> JStr ''product_1'', ''serial_number'' \<mapsto> JInt 1, ''input_title'' \<mapsto> JStr title,
      ''url_1'' \<mapsto> JStr ''Not Available'', ''url_1_title'' \<mapsto> JStr ''Not Available'',
      ''url_2'' \<mapsto> JStr ''Not Available'', ''url_2_title'' \<mapsto> JStr ''Not Available'',
      ''url_3'' \<mapsto> JStr ''Not Available'', ''url_3_title'' \<mapsto> JStr ''Not Available'',
      ''url_4'' \<mapsto> JStr ''Not Available'', ''url_4_title'' \<mapsto> JStr ''Not Available'',
      ''url_5'' \<mapsto> JStr ''Not Available'', ''url_5_title'' \<mapsto> JStr ''Not Available'']"

definition near_miss_record :: jrecord where
  "near_miss_record =
     [''id'' \<mapsto> JStr ''product_1'', ''serial_number'' \<mapsto> JInt 1,
      ''input_title'' \<mapsto> JStr ''Pepsi Cola Soft Drink Can 330 ml Pack of 24'',
      ''url_1'' \<mapsto> JStr ''https://www.amazon.ae/dp/1'',
      ''url_1_title'' \<mapsto> JStr (''Pepsi Cola Carbonated Soft Drink Can 330 ml Pack of 24 '' @
         ''Refreshing Taste Zero Sugar Free Bottle Case Original'')]"

definition tie_record :: jrecord where
  "tie_record =
     [''id'' \<mapsto> JStr ''product_1'', ''serial_number'' \<mapsto> JInt 1,
      ''input_title'' \<mapsto> JStr ''Pepsi 330ML Can'',
      ''url_1'' \<mapsto> JStr ''https://www.amazon.ae/dp/1'', ''url_1_title'' \<mapsto> JStr ''Cola'',
      ''url_2'' \<mapsto> JStr ''https://www.amazon.ae/dp/2'', ''url_2_title'' \<mapsto> JStr ''Pepsi 330ML Can'',
      ''url_3'' \<mapsto> JStr ''https://www.amazon.ae/dp/3'', ''url_3_title'' \<mapsto> JStr ''Pepsi 330ML Can'',
      ''url_4'' \<mapsto> JNull, ''url_4_title'' \<mapsto> JNull]"

text \<open>Stand-ins for the scorer on these records: a constant, and one that tells equal
  titles from different ones. \<open>near_miss\<close> is the double 0.5999977130784322, the value of
  \<open>10 / sqrt (10 * (10 + 9 * (1 + ln 1.5)\<^sup>2))\<close>: the TF-IDF cosine of a title with ten
  distinct tokens and a title with the same ten and nine others.\<close>

definition near_miss :: rat where
  "near_miss = 2702149477043177 / 4503599627370496"

definition const_scorer :: "rat \<Rightarrow> scorer" where
  "const_scorer x a b = Inr x"

definition equal_scorer :: scorer where
  "equal_scorer a b = Inr (if a = b then 1 else 0)"


definition null_title_record :: jrecord where
  "null_title_record =
     [''input_title'' \<mapsto> JStr ''Pepsi 330ML Can'',
      ''url_1'' \<mapsto> JStr ''https://www.amazon.ae/dp/1'', ''url_1_title'' \<mapsto> JNull]"

section \<open>Properties of the regular expression matcher\<close>












section \<open>Integers read from captured groups\<close>




















section \<open>Units per carton: the claims\<close>





text \<open>
  C1. On \<open>4 X 18 X 56G\<close> the source returns 18, not 72: the third recognizer (a count, a
  multiplication sign, a quantity and a unit) matches \<open>18 X 56G\<close> before the chain of
  \<open>X\<close> is looked at. The chain recognizer alone would find 4 and 18 and return 72, as
  the docstring of the function says.
\<close>

theorem units_chain_example:
  "extract_units_per_carton (Some ''4 X 18 X 56G'') = Inr (Some 18) \<and>
   re_findall x_numbers_re ''4 X 18 X 56G'' = [''4'', ''18''] \<and>
   chain_case [''4'', ''18''] = Inr (Some 72)"
  by code_simp

section \<open>Packaging type: the claim\<close>

lemma take_prefix_iff: "take (length k) xs = k \<longleftrightarrow> prefix k xs"
proof
  assume "take (length k) xs = k"
  then have "prefix (take (length k) xs) xs \<Longrightarrow> prefix k xs" by simp
  then show "prefix k xs" using take_is_prefix by blast
next
  assume "prefix k xs"
  then obtain r where "xs = k @ r" by (auto simp: prefix_def)
  then show "take (length k) xs = k" by simp
qed

lemma str_contains_sublist: "str_contains k s \<longleftrightarrow> sublist k s"
proof (induction s)
  case Nil
  show ?case by auto
next
  case (Cons c cs)
  have "str_contains k (c # cs) \<longleftrightarrow> prefix k (c # cs) \<or> str_contains k cs"
    using take_prefix_iff [of k "c # cs"] by simp
  then show ?case using Cons by (simp add: sublist_Cons_right)
qed

lemma sublist_dropWhile:
  assumes "k \<noteq> []" and "\<not> P (hd k)"
  shows "sublist k (dropWhile P xs) \<longleftrightarrow> sublist k xs"
proof (induction xs)
  case Nil
  show ?case by simp
next
  case (Cons x xs)
  show ?case
  proof (cases "P x")
    case True
    have "\<not> prefix k (x # xs)"
    proof
      assume "prefix k (x # xs)"
      then have "hd k = x" using assms(1) by (cases k) simp_all
      then show False using True assms(2) by simp
    qed
    then show ?thesis using True Cons by (simp add: sublist_Cons_right)
  next
    case False
    then show ?thesis by simp
  qed
qed

lemma sublist_strip:
  assumes "k \<noteq> []" and "\<not> is_space (hd k)" and "\<not> is_space (last k)"
  shows "sublist k (strip s) \<longleftrightarrow> sublist k s"
proof -
  have r: "rev k \<noteq> []" "\<not> is_space (hd (rev k))" using assms by (simp_all add: hd_rev)
  have "sublist k (strip s) \<longleftrightarrow> sublist (rev k) (dropWhile is_space (rev (dropWhile is_space s)))"
    by (simp only: strip_def sublist_rev_right)
  also have "\<dots> \<longleftrightarrow> sublist (rev k) (rev (dropWhile is_space s))"
    by (rule sublist_dropWhile [where P = is_space, OF r])
  also have "\<dots> \<longleftrightarrow> sublist k (dropWhile is_space s)"
    by (simp only: sublist_rev)
  also have "\<dots> \<longleftrightarrow> sublist k s"
    by (rule sublist_dropWhile [where P = is_space, OF assms(1,2)])
  finally show ?thesis .
qed

lemma is_space_upper_char: "is_space (upper_char c) \<longleftrightarrow> is_space c"
  by (auto simp: upper_char_def is_space_def split: if_splits)

lemma upper_strip: "upper (strip s) = strip (upper s)"
proof -
  have c: "is_space \<circ> upper_char = is_space" by (rule ext) (simp add: is_space_upper_char)
  show ?thesis by (simp add: upper_def strip_def dropWhile_map rev_map c)
qed


lemma packaging_keyword:
  assumes "k \<in> set carton_keywords"
  shows "str_contains k (upper (strip raw)) \<longleftrightarrow> sublist k (upper raw)"
proof -
  have k: "k \<noteq> []" "\<not> is_space (hd k)" "\<not> is_space (last k)"
    using assms by (auto simp: carton_keywords_def is_space_def)
  show ?thesis by (simp only: str_contains_sublist upper_strip sublist_strip [OF k])
qed

text \<open>
  C9. \<open>detect_packaging_type\<close> is total and has two results: a missing name gives
  \<open>NON-CTN\<close>, and a name gives \<open>CTN\<close> exactly when its upper-cased text contains one
  of \<open>CTN\<close>, \<open>CARTON\<close>, \<open>CARTONS\<close> as a contiguous block (stripping the white space at
  both ends first, as the source does, changes nothing).
\<close>

theorem packaging_total_binary:
  "detect_packaging_type None = ''NON-CTN'' \<and>
   detect_packaging_type (Some raw) =
     (if sublist ''CTN'' (upper raw) \<or> sublist ''CARTON'' (upper raw) \<or>
         sublist ''CARTONS'' (upper raw)
      then ''CTN'' else ''NON-CTN'') \<and>
   (detect_packaging_type name0 = ''CTN'' \<or> detect_packaging_type name0 = ''NON-CTN'')"
proof -
  have a: "detect_packaging_type None = ''NON-CTN''"
    by (simp add: detect_packaging_type_def)
  have b: "detect_packaging_type (Some r) =
     (if sublist ''CTN'' (upper r) \<or> sublist ''CARTON'' (upper r) \<or> sublist ''CARTONS'' (upper r)
      then ''CTN'' else ''NON-CTN'')" for r
  proof -
    have "list_ex (\<lambda>k. str_contains k (upper (strip r))) carton_keywords \<longleftrightarrow>
        (\<exists>k \<in> set carton_keywords. sublist k (upper r))"
      using packaging_keyword [of _ r] by (simp add: list_ex_iff)
    then show ?thesis by (simp add: detect_packaging_type_def carton_keywords_def)
  qed
  have c: "detect_packaging_type name0 = ''CTN'' \<or> detect_packaging_type name0 = ''NON-CTN''"
    by (cases name0) (simp_all add: a b)
  from a b c show ?thesis by blast
qed

section \<open>Consolidation: the claim\<close>

lemma drop_duplicates_keys:
  "set (map row_key (drop_duplicates seen rs)) = set (map row_key rs) - set seen"
  by (induction rs arbitrary: seen) auto

lemma drop_duplicates_distinct: "distinct (map row_key (drop_duplicates seen rs))"
proof (induction rs arbitrary: seen)
  case Nil
  show ?case by simp
next
  case (Cons r rs)
  have "row_key r \<notin> set (map row_key (drop_duplicates (row_key r # seen) rs))"
    by (simp only: drop_duplicates_keys) simp
  then show ?case using Cons by simp
qed

lemma drop_duplicates_subseq: "subseq (drop_duplicates seen rs) rs"
  by (induction rs arbitrary: seen) auto

lemma drop_duplicates_first:
  "r \<in> set (drop_duplicates seen rs) \<Longrightarrow> find (\<lambda>x. row_key x = row_key r) rs = Some r"
proof (induction rs arbitrary: seen)
  case Nil
  then show ?case by simp
next
  case (Cons x xs)
  show ?case
  proof (cases "row_key x \<in> set seen")
    case True
    then have r: "r \<in> set (drop_duplicates seen xs)" using Cons.prems by simp
    then have "row_key r \<in> set (map row_key (drop_duplicates seen xs))" by simp
    then have "row_key r \<notin> set seen" by (simp only: drop_duplicates_keys) simp
    then have "row_key x \<noteq> row_key r" using True by auto
    then show ?thesis using Cons.IH [OF r] by simp
  next
    case False
    show ?thesis
    proof (cases "r = x")
      case True
      then show ?thesis by simp
    next
      case neq: False
      then have r: "r \<in> set (drop_duplicates (row_key x # seen) xs)" using Cons.prems False by simp
      then have "row_key r \<in> set (map row_key (drop_duplicates (row_key x # seen) xs))" by simp
      then have "row_key r \<notin> set (row_key x # seen)" by (simp only: drop_duplicates_keys) simp
      then have "row_key x \<noteq> row_key r" by auto
      then show ?thesis using Cons.IH [OF r] by simp
    qed
  qed
qed

lemma digit_val_digit_char: "d < 10 \<Longrightarrow> digit_val (digit_char d) = int d"
  by (simp add: digit_val_def digit_char_def)

lemma digits_val_append: "digits_val (xs @ [c]) = 10 * digits_val xs + digit_val c"
  by (simp add: digits_val_def)

lemma digits_val_str_nat: "digits_val (str_nat n) = int n"
proof (induction n rule: str_nat.induct)
  case (1 n)
  show ?case
  proof (cases "n < 10")
    case True
    then show ?thesis by (simp add: str_nat.simps [of n] digits_val_def digit_val_digit_char)
  next
    case False
    have "digits_val (str_nat n) = 10 * digits_val (str_nat (n div 10)) + digit_val (digit_char (n mod 10))"
      using False by (simp add: str_nat.simps [of n] digits_val_append)
    also have "\<dots> = 10 * int (n div 10) + int (n mod 10)"
      using 1 False by (simp add: digit_val_digit_char)
    also have "\<dots> = int n" by presburger
    finally show ?thesis .
  qed
qed

lemma str_nat_inj: "str_nat n = str_nat m \<Longrightarrow> n = m"
proof -
  assume "str_nat n = str_nat m"
  then have "digits_val (str_nat n) = digits_val (str_nat m)" by simp
  then show "n = m" by (simp add: digits_val_str_nat)
qed

lemma assign_ids_rows: "map entry_row (assign_ids rs) = rs"
  by (simp add: assign_ids_def map_nth comp_def)

lemma assign_ids_ids:
  "map product_id (assign_ids rs) = map (\<lambda>n. ''product_'' @ str_nat n) [1..<Suc (length rs)]"
proof -
  have "map product_id (assign_ids rs) = map (\<lambda>i. ''product_'' @ str_nat (Suc i)) [0..<length rs]"
    by (simp add: assign_ids_def str_int_def comp_def nat_add_distrib)
  also have "\<dots> = map (\<lambda>n. ''product_'' @ str_nat n) (map Suc [0..<length rs])"
    by (simp add: comp_def)
  also have "map Suc [0..<length rs] = [1..<Suc (length rs)]"
    by (simp add: map_Suc_upt)
  finally show ?thesis .
qed

lemma product_ids_distinct: "distinct (map (\<lambda>n. ''product_'' @ str_nat n) [a..<b])"
proof -
  have "inj (\<lambda>n. ''product_'' @ str_nat n)"
    by (rule injI) (simp add: str_nat_inj)
  then show ?thesis by (simp add: distinct_map inj_on_def inj_def)
qed


text \<open>
  C6 (as amended). For every non-empty sequence of batches the consolidated catalog has
  exactly one entry for each (product name, supplier) pair of the input, the entry is the
  first row of the concatenation with that pair, the rows keep their order, and the
  identifiers are \<open>product_1\<close>, ..., \<open>product_n\<close> in row order, all different.
\<close>

theorem consolidate_dedup_dense:
  assumes "all_data \<noteq> []"
  shows "\<exists>out. consolidate all_data = Inr out \<and>
     distinct (map (row_key \<circ> entry_row) out) \<and>
     set (map (row_key \<circ> entry_row) out) = set (map row_key (concat all_data)) \<and>
     subseq (map entry_row out) (concat all_data) \<and>
     (\<forall>e \<in> set out.
        find (\<lambda>r. row_key r = row_key (entry_row e)) (concat all_data) = Some (entry_row e)) \<and>
     map product_id out = map (\<lambda>n. ''product_'' @ str_nat n) [1..<Suc (length out)] \<and>
     distinct (map product_id out)"
proof -
  define final where "final = drop_duplicates [] (concat all_data)"
  define out where "out = assign_ids final"
  have rows: "map entry_row out = final" by (simp add: out_def assign_ids_rows)
  have len: "length out = length final" by (simp add: out_def assign_ids_def)
  have keys: "map (row_key \<circ> entry_row) out = map row_key final"
    using rows by (simp flip: map_map)
  have 1: "consolidate all_data = Inr out"
    using assms by (simp add: consolidate_def out_def final_def)
  have 2: "distinct (map (row_key \<circ> entry_row) out)"
    by (simp only: keys final_def drop_duplicates_distinct)
  have 3: "set (map (row_key \<circ> entry_row) out) = set (map row_key (concat all_data))"
    by (simp only: keys final_def drop_duplicates_keys) simp
  have 4: "subseq (map entry_row out) (concat all_data)"
    by (simp only: rows final_def drop_duplicates_subseq)
  have 5: "\<forall>e \<in> set out.
      find (\<lambda>r. row_key r = row_key (entry_row e)) (concat all_data) = Some (entry_row e)"
  proof
    fix e assume "e \<in> set out"
    then have "entry_row e \<in> set (map entry_row out)" by simp
    then have "entry_row e \<in> set (drop_duplicates [] (concat all_data))"
      by (simp only: rows final_def)
    then show "find (\<lambda>r. row_key r = row_key (entry_row e)) (concat all_data) = Some (entry_row e)"
      by (rule drop_duplicates_first)
  qed
  have 6: "map product_id out = map (\<lambda>n. ''product_'' @ str_nat n) [1..<Suc (length out)]"
    by (simp only: len) (simp only: out_def assign_ids_ids)
  have 7: "distinct (map product_id out)"
    by (simp only: 6 product_ids_distinct)
  from 1 2 3 4 5 6 7 show ?thesis by blast
qed

text \<open>Two batches that share a pair and have a name in common across suppliers.\<close>

lemma example_eval:
  "consolidate example_batches = Inr
      [\<lparr>product_id = ''product_1'', entry_row = example_row ''TEA 100 BAGS'' ''1'' ''Future''\<rparr>,
       \<lparr>product_id = ''product_2'', entry_row = example_row ''RICE 5KG'' ''2'' ''Future''\<rparr>,
       \<lparr>product_id = ''product_3'', entry_row = example_row ''RICE 5KG'' ''8'' ''Chettiot''\<rparr>]"
  by code_simp

theorem consolidate_dedup_dense_witness:
  "example_batches \<noteq> [] \<and>
   (\<exists>out. consolidate example_batches = Inr out \<and> length out = 3 \<and>
      distinct (map (row_key \<circ> entry_row) out) \<and> distinct (map product_id out))"
proof -
  have h: "example_batches \<noteq> []" by (simp add: example_batches_def)
  from consolidate_dedup_dense [OF h] obtain out where
    "consolidate example_batches = Inr out" "distinct (map (row_key \<circ> entry_row) out)"
    "distinct (map product_id out)" by blast
  then show ?thesis using h example_eval by auto
qed

text \<open>On the empty sequence of batches (no supplier file was found) \<open>pd.concat\<close> raises
  and there is no catalog.\<close>

theorem consolidate_empty_counterexample:
  "consolidate [] = Inl ValueError \<and> \<not> (\<exists>out. consolidate [] = Inr out)"
  by (simp add: consolidate_def)

end
